theory Spec2Isabelle
  imports Main "HOL-Library.AList"
begin

section \<open>The mem0 bridge (mem0-bridge.py)\<close>

text \<open>
  The program is a command-line bridge: it reads its configuration from the environment,
  builds a \<open>Mem0Bridge\<close> around a client of the external memory library, runs one command
  and prints one JSON object. The embedding below follows \<^verbatim>\<open>src/mem0-bridge.py\<close>
  function by function. What lies outside the repository (the environment variables, the
  clock, \<^verbatim>\<open>int\<close>, \<^verbatim>\<open>json.loads\<close>, \<^verbatim>\<open>requests.get\<close>, \<^verbatim>\<open>Memory.from_config\<close> and the
  client it returns) is a parameter of the model, collected in the record \<open>world\<close>.
  Calls of \<^verbatim>\<open>logger\<close> write to standard error and are left out, except where evaluating
  their argument can raise (\<^verbatim>\<open>len(results)\<close>).
\<close>

subsection \<open>Python values and exceptions\<close>

text \<open>
  The values the program handles: what \<^verbatim>\<open>json.loads\<close> yields and what the client returns.
  A dictionary is an association list in insertion order, with string keys. \<open>POther\<close> stands
  for an object of any other class: its name, the value of \<^verbatim>\<open>len\<close> on it when it has one, and
  whether \<^verbatim>\<open>json.dumps\<close> accepts it.
\<close>

datatype pyval =
    PNone
  | PBool bool
  | PInt int
  | PStr string
  | PList "pyval list"
  | PDict "(string \<times> pyval) list"
  | POther string "nat option" bool

text \<open>
  Instances of \<^verbatim>\<open>Exception\<close>, each with the text \<^verbatim>\<open>str(e)\<close> gives. \<open>OtherError\<close> is an
  exception of any other class (its name, its text).
\<close>

datatype pyexc =
    RuntimeError string
  | ValueError string
  | TypeError string
  | AttributeError string
  | OtherError string string

fun str_exc :: "pyexc \<Rightarrow> string" where
  "str_exc (RuntimeError m) = m"
| "str_exc (ValueError m) = m"
| "str_exc (TypeError m) = m"
| "str_exc (AttributeError m) = m"
| "str_exc (OtherError c m) = m"

fun type_name :: "pyval \<Rightarrow> string" where
  "type_name PNone = ''NoneType''"
| "type_name (PBool b) = ''bool''"
| "type_name (PInt i) = ''int''"
| "type_name (PStr s) = ''str''"
| "type_name (PList xs) = ''list''"
| "type_name (PDict kvs) = ''dict''"
| "type_name (POther c n j) = c"

text \<open>\<^verbatim>\<open>len(v)\<close>: defined on strings, lists and dictionaries, a \<^verbatim>\<open>TypeError\<close> elsewhere.\<close>

fun py_len :: "pyval \<Rightarrow> pyexc + nat" where
  "py_len (PStr s) = Inr (length s)"
| "py_len (PList xs) = Inr (length xs)"
| "py_len (PDict kvs) = Inr (length kvs)"
| "py_len (POther c (Some n) j) = Inr n"
| "py_len v = Inl (TypeError (''object of type '' @ [CHR 0x27] @ type_name v @ [CHR 0x27] @ '' has no len()''))"

text \<open>\<^verbatim>\<open>str(n)\<close> for a natural number and for an integer: decimal digits.\<close>

fun str_nat :: "nat \<Rightarrow> string" where
  "str_nat n = (if n < 10 then [char_of (48 + n)] else str_nat (n div 10) @ [char_of (48 + n mod 10)])"

definition str_int :: "int \<Rightarrow> string" where
  "str_int i = (if i < 0 then CHR ''-'' # str_nat (nat (- i)) else str_nat (nat i))"

text \<open>
  \<^verbatim>\<open>json.dumps(v)\<close> succeeds when no object inside \<open>v\<close> is of a class the encoder rejects;
  otherwise it raises a \<^verbatim>\<open>TypeError\<close> (whose text, which names the class, is shortened here).
  The text it returns is kept as the value it denotes.
\<close>

primrec serializable :: "pyval \<Rightarrow> bool" where
  "serializable PNone = True"
| "serializable (PBool b) = True"
| "serializable (PInt i) = True"
| "serializable (PStr s) = True"
| "serializable (PList xs) = list_all id (map serializable xs)"
| "serializable (PDict kvs) = list_all id (map snd (map (map_prod id serializable) kvs))"
| "serializable (POther c n j) = j"

definition json_dumps :: "pyval \<Rightarrow> pyexc + pyval" where
  "json_dumps v = (if serializable v then Inr v
     else Inl (TypeError ''Object is not JSON serializable''))"

declare str_nat.simps [simp del]

subsection \<open>The world outside the program\<close>

text \<open>
  A call of a method of the client: \<^verbatim>\<open>add(messages, user_id=, metadata=)\<close>,
  \<^verbatim>\<open>search(query, user_id=, limit=)\<close>, \<^verbatim>\<open>get_all(user_id=)\<close>, \<^verbatim>\<open>update(memory_id, data)\<close>,
  \<^verbatim>\<open>delete(memory_id)\<close>. The client answers a call with a value or raises. One run of the
  program makes at most one call, so the client's own state is not threaded through.
\<close>

datatype call =
    Add pyval string pyval
  | Search string string int
  | GetAll string
  | Update string pyval
  | Delete string

type_synonym client = "call \<Rightarrow> pyexc + pyval"

record world =
  environ :: "string \<rightharpoonup> string"
  now_isoformat :: string
  py_int :: "string \<Rightarrow> pyexc + int"
  json_loads :: "string \<Rightarrow> pyexc + pyval"
  requests_get :: "string \<Rightarrow> pyexc + int"
  from_config :: "pyval \<Rightarrow> pyexc + client"

text \<open>\<^verbatim>\<open>os.getenv(k)\<close> is \<open>environ w k\<close>; \<^verbatim>\<open>os.getenv(k, d)\<close> is \<open>getenv w k d\<close>.\<close>

definition getenv :: "world \<Rightarrow> string \<Rightarrow> string \<Rightarrow> string" where
  "getenv w k d = (case environ w k of Some v \<Rightarrow> v | None \<Rightarrow> d)"

subsection \<open>Program state\<close>

text \<open>
  The store holds the objects the program can alias (the metadata dictionary of
  \<^verbatim>\<open>add_memory\<close>), by address. \<open>calls\<close> records the calls made on the client, \<open>out\<close> the
  lines printed on standard output: each line is the text \<^verbatim>\<open>json.dumps\<close> made, kept as the
  value it denotes.
\<close>

record pstate =
  heap :: "nat \<rightharpoonup> pyval"
  next_addr :: nat
  calls :: "call list"
  out :: "pyval list"

definition initial_state :: pstate where
  "initial_state = \<lparr>heap = Map.empty, next_addr = 0, calls = [], out = []\<rparr>"

definition alloc :: "pyval \<Rightarrow> pstate \<Rightarrow> nat \<times> pstate" where
  "alloc v s = (next_addr s, s\<lparr>heap := (heap s)(next_addr s \<mapsto> v), next_addr := Suc (next_addr s)\<rparr>)"

subsection \<open>Mem0Bridge\<close>

text \<open>
  The configuration dictionary \<^verbatim>\<open>main\<close> builds (lines 231-240) has eight fixed keys; it is a
  record here, so \<^verbatim>\<open>config.get(k, default)\<close> is the field \<open>k\<close>.
\<close>

record bridge_config =
  qdrant_host :: string
  qdrant_port :: int
  qdrant_collection :: string
  qdrant_api_key :: "string option"
  memgraph_host :: string
  memgraph_port :: int
  memgraph_user :: string
  memgraph_password :: string

record bridge =
  config :: bridge_config
  memory :: "client option"
  initialized :: bool
  mem0_config :: pyval

definition opt_str :: "string option \<Rightarrow> pyval" where
  "opt_str x = (case x of None \<Rightarrow> PNone | Some v \<Rightarrow> PStr v)"

definition qdrant_url :: "bridge_config \<Rightarrow> string" where
  "qdrant_url cfg = ''http://'' @ qdrant_host cfg @ '':'' @ str_int (qdrant_port cfg)"

definition make_mem0_config :: "world \<Rightarrow> bridge_config \<Rightarrow> pyval" where
  "make_mem0_config w cfg =
     PDict [
       (''embedder'', PDict [
          (''provider'', PStr ''openai''),
          (''config'', PDict [
             (''model'', PStr ''text-embedding-3-large''),
             (''embedding_dims'', PInt 1536),
             (''api_key'', opt_str (environ w ''OPENAI_API_KEY''))])]),
       (''vector_store'', PDict [
          (''provider'', PStr ''qdrant''),
          (''config'', PDict [
             (''collection_name'', PStr (qdrant_collection cfg)),
             (''url'', PStr (qdrant_url cfg)),
             (''api_key'', opt_str (qdrant_api_key cfg))])])]"

text \<open>
  The body of the \<^verbatim>\<open>try\<close> of \<^verbatim>\<open>_initialize_memory\<close> (lines 62-87). The connectivity probe
  has a handler of its own that swallows every exception, and its answer is only logged.
  Line 70 stores the key it has just read back under the same name, which leaves the
  environment as it was.
\<close>

definition connectivity_check :: "world \<Rightarrow> bridge \<Rightarrow> unit" where
  "connectivity_check w b =
     (case requests_get w (qdrant_url (config b) @ ''/collections'') of
        Inl e \<Rightarrow> ()
      | Inr status_code \<Rightarrow> ())"

definition initialize_memory_try :: "world \<Rightarrow> bridge \<Rightarrow> pyexc + bridge" where
  "initialize_memory_try w b =
     (case environ w ''OPENAI_API_KEY'' of
        None \<Rightarrow> Inl (ValueError ''OPENAI_API_KEY environment variable is required'')
      | Some openai_key \<Rightarrow>
          if openai_key = [] then Inl (ValueError ''OPENAI_API_KEY environment variable is required'')
          else
            (let u = (if environ w ''SKIP_CONNECTIVITY_CHECK'' \<noteq> Some ''true''
                      then connectivity_check w b else ())
             in case from_config w (mem0_config b) of
                  Inl e \<Rightarrow> Inl e
                | Inr c \<Rightarrow> Inr (b\<lparr>memory := Some c, initialized := True\<rparr>)))"

text \<open>\<^verbatim>\<open>_initialize_memory\<close>: the handler (lines 89-94) records the failure and raises nothing.\<close>

definition initialize_memory :: "world \<Rightarrow> bridge \<Rightarrow> bridge" where
  "initialize_memory w b =
     (case initialize_memory_try w b of
        Inr b' \<Rightarrow> b'
      | Inl e \<Rightarrow> b\<lparr>initialized := False\<rparr>)"

text \<open>
  \<^verbatim>\<open>Mem0Bridge.__init__\<close> (lines 22-57): the fields are set (lines 23-54), then
  \<^verbatim>\<open>_initialize_memory\<close> runs. \<open>Inl\<close> would be an exception leaving the constructor.
\<close>

definition new_bridge :: "world \<Rightarrow> bridge_config \<Rightarrow> bridge" where
  "new_bridge w cfg =
     \<lparr>config = cfg, memory = None, initialized = False, mem0_config = make_mem0_config w cfg\<rparr>"

definition Mem0Bridge :: "world \<Rightarrow> bridge_config \<Rightarrow> pyexc + bridge" where
  "Mem0Bridge w cfg = Inr (initialize_memory w (new_bridge w cfg))"

subsection \<open>Operations of the bridge\<close>

text \<open>
  An operation returns \<open>Inl e\<close> when it raises \<open>e\<close> and \<open>Inr v\<close> when it returns the
  envelope \<open>v\<close>, together with the state it leaves.
\<close>

definition not_initialized :: pyexc where
  "not_initialized = RuntimeError ''mem0 not initialized''"

definition success :: "string \<Rightarrow> pyval \<Rightarrow> pyval" where
  "success key v = PDict [(''success'', PBool True), (key, v)]"

definition failure :: "pyexc \<Rightarrow> pyval" where
  "failure e = PDict [(''success'', PBool False), (''error'', PStr (str_exc e))]"

text \<open>
  \<^verbatim>\<open>self.memory.m(...)\<close>: with no client the attribute lookup on \<^verbatim>\<open>None\<close> raises; otherwise
  the call is recorded and the client answers.
\<close>

fun method_name :: "call \<Rightarrow> string" where
  "method_name (Add m u md) = ''add''"
| "method_name (Search q u l) = ''search''"
| "method_name (GetAll u) = ''get_all''"
| "method_name (Update i d) = ''update''"
| "method_name (Delete i) = ''delete''"

definition no_attribute :: "string \<Rightarrow> string \<Rightarrow> pyexc" where
  "no_attribute ty attr = AttributeError
     ([CHR 0x27] @ ty @ [CHR 0x27] @ '' object has no attribute '' @ [CHR 0x27] @ attr @ [CHR 0x27])"

definition memory_call :: "bridge \<Rightarrow> call \<Rightarrow> pstate \<Rightarrow> (pyexc + pyval) \<times> pstate" where
  "memory_call b c s =
     (case memory b of
        None \<Rightarrow> (Inl (no_attribute ''NoneType'' (method_name c)), s)
      | Some cl \<Rightarrow> (cl c, s\<lparr>calls := calls s @ [c]\<rparr>))"

text \<open>
  The handler every operation ends with (\<^verbatim>\<open>except Exception as e\<close>): the exception raised
  in the body of the \<^verbatim>\<open>try\<close> becomes the envelope \<open>failure e\<close>, which is returned.
\<close>

definition catch_failure :: "(pyexc + pyval) \<times> pstate \<Rightarrow> (pyexc + pyval) \<times> pstate" where
  "catch_failure r =
     (case r of
        (Inl e, s) \<Rightarrow> (Inr (failure e), s)
      | (Inr v, s) \<Rightarrow> (Inr v, s))"

text \<open>
  \<^verbatim>\<open>metadata.update({...})\<close> (lines 108-112): the object must be a dictionary; the three
  entries are stored in this order, each replacing the entry of the same key or appended.
\<close>

definition metadata_update :: "world \<Rightarrow> string \<Rightarrow> (string \<times> pyval) list \<Rightarrow> (string \<times> pyval) list" where
  "metadata_update w user_id d =
     AList.update ''user_id'' (PStr user_id)
       (AList.update ''source'' (PStr ''autoweave'')
          (AList.update ''timestamp'' (PStr (now_isoformat w)) d))"

text \<open>
  \<^verbatim>\<open>add_memory\<close>: the body of its \<^verbatim>\<open>try\<close> (lines 102-118), then the method with its gate
  (lines 98-99) and handler (lines 120-122). \<open>metadata\<close> is \<open>None\<close> or the address of the
  object passed; a fresh dictionary is allocated only when the argument is \<^verbatim>\<open>None\<close>, and the
  update is written to the store at the address in hand.
\<close>

definition add_memory_try ::
  "world \<Rightarrow> bridge \<Rightarrow> pyval \<Rightarrow> string \<Rightarrow> nat option \<Rightarrow> pstate \<Rightarrow> (pyexc + pyval) \<times> pstate" where
  "add_memory_try w b messages user_id metadata s =
     (let (a, s1) =
            (case metadata of
               None \<Rightarrow> alloc (PDict []) s
             | Some r \<Rightarrow> if heap s r = Some PNone then alloc (PDict []) s else (r, s))
      in case heap s1 a of
           Some (PDict d) \<Rightarrow>
             (let d' = metadata_update w user_id d;
                  s2 = s1\<lparr>heap := (heap s1)(a \<mapsto> PDict d')\<rparr>
              in case memory_call b (Add messages user_id (PDict d')) s2 of
                   (Inl e, s3) \<Rightarrow> (Inl e, s3)
                 | (Inr result, s3) \<Rightarrow> (Inr (success ''result'' result), s3))
         | Some v \<Rightarrow> (Inl (no_attribute (type_name v) ''update''), s1)
         | None \<Rightarrow> (Inl (no_attribute ''NoneType'' ''update''), s1))"

definition add_memory ::
  "world \<Rightarrow> bridge \<Rightarrow> pyval \<Rightarrow> string \<Rightarrow> nat option \<Rightarrow> pstate \<Rightarrow> (pyexc + pyval) \<times> pstate" where
  "add_memory w b messages user_id metadata s =
     (if \<not> initialized b then (Inl not_initialized, s)
      else catch_failure (add_memory_try w b messages user_id metadata s))"

text \<open>\<^verbatim>\<open>search_memory\<close> (lines 124-140); \<^verbatim>\<open>len(results)\<close> is evaluated for the log line.\<close>

definition search_memory_try ::
  "bridge \<Rightarrow> string \<Rightarrow> string \<Rightarrow> int \<Rightarrow> pstate \<Rightarrow> (pyexc + pyval) \<times> pstate" where
  "search_memory_try b query user_id limit s =
     (case memory_call b (Search query user_id limit) s of
        (Inl e, s1) \<Rightarrow> (Inl e, s1)
      | (Inr results, s1) \<Rightarrow>
          (case py_len results of
             Inl e \<Rightarrow> (Inl e, s1)
           | Inr n \<Rightarrow> (Inr (success ''results'' results), s1)))"

definition search_memory ::
  "bridge \<Rightarrow> string \<Rightarrow> string \<Rightarrow> int \<Rightarrow> pstate \<Rightarrow> (pyexc + pyval) \<times> pstate" where
  "search_memory b query user_id limit s =
     (if \<not> initialized b then (Inl not_initialized, s)
      else catch_failure (search_memory_try b query user_id limit s))"

text \<open>\<^verbatim>\<open>get_all_memories\<close> (lines 142-158).\<close>

definition get_all_memories_try :: "bridge \<Rightarrow> string \<Rightarrow> pstate \<Rightarrow> (pyexc + pyval) \<times> pstate" where
  "get_all_memories_try b user_id s =
     (case memory_call b (GetAll user_id) s of
        (Inl e, s1) \<Rightarrow> (Inl e, s1)
      | (Inr results, s1) \<Rightarrow>
          (case py_len results of
             Inl e \<Rightarrow> (Inl e, s1)
           | Inr n \<Rightarrow> (Inr (success ''results'' results), s1)))"

definition get_all_memories :: "bridge \<Rightarrow> string \<Rightarrow> pstate \<Rightarrow> (pyexc + pyval) \<times> pstate" where
  "get_all_memories b user_id s =
     (if \<not> initialized b then (Inl not_initialized, s)
      else catch_failure (get_all_memories_try b user_id s))"

text \<open>\<^verbatim>\<open>update_memory\<close> (lines 160-176).\<close>

definition update_memory_try :: "bridge \<Rightarrow> string \<Rightarrow> pyval \<Rightarrow> pstate \<Rightarrow> (pyexc + pyval) \<times> pstate" where
  "update_memory_try b memory_id data s =
     (case memory_call b (Update memory_id data) s of
        (Inl e, s1) \<Rightarrow> (Inl e, s1)
      | (Inr result, s1) \<Rightarrow> (Inr (success ''result'' result), s1))"

definition update_memory :: "bridge \<Rightarrow> string \<Rightarrow> pyval \<Rightarrow> pstate \<Rightarrow> (pyexc + pyval) \<times> pstate" where
  "update_memory b memory_id data s =
     (if \<not> initialized b then (Inl not_initialized, s)
      else catch_failure (update_memory_try b memory_id data s))"

text \<open>\<^verbatim>\<open>delete_memory\<close> (lines 178-194).\<close>

definition delete_memory_try :: "bridge \<Rightarrow> string \<Rightarrow> pstate \<Rightarrow> (pyexc + pyval) \<times> pstate" where
  "delete_memory_try b memory_id s =
     (case memory_call b (Delete memory_id) s of
        (Inl e, s1) \<Rightarrow> (Inl e, s1)
      | (Inr result, s1) \<Rightarrow> (Inr (success ''result'' result), s1))"

definition delete_memory :: "bridge \<Rightarrow> string \<Rightarrow> pstate \<Rightarrow> (pyexc + pyval) \<times> pstate" where
  "delete_memory b memory_id s =
     (if \<not> initialized b then (Inl not_initialized, s)
      else catch_failure (delete_memory_try b memory_id s))"

text \<open>\<^verbatim>\<open>health_check\<close> (lines 196-222): no gate; the whole body is inside the \<^verbatim>\<open>try\<close>.\<close>

definition status_base :: "world \<Rightarrow> bridge \<Rightarrow> (string \<times> pyval) list" where
  "status_base w b =
     [(''initialized'', PBool (initialized b)),
      (''timestamp'', PStr (now_isoformat w)),
      (''config'', PDict [
         (''vector_store'', PStr ''qdrant''),
         (''graph_store'', PStr ''memgraph''),
         (''embedder'', PStr ''openai'')])]"

definition health_check_try :: "world \<Rightarrow> bridge \<Rightarrow> pstate \<Rightarrow> (pyexc + pyval) \<times> pstate" where
  "health_check_try w b s =
     (let status = status_base w b in
      if initialized b then
        (case memory_call b (Search ''test'' ''health_check'' 1) s of
           (Inl e, s1) \<Rightarrow> (Inl e, s1)
         | (Inr test_result, s1) \<Rightarrow>
             (case py_len test_result of
                Inl e \<Rightarrow> (Inl e, s1)
              | Inr n \<Rightarrow>
                  (Inr (success ''status''
                     (PDict (status @
                        [(''functional'', PBool True),
                         (''test_result'', PStr (''Search test successful: '' @ str_nat n @ '' results''))]))),
                   s1)))
      else
        (Inr (success ''status''
           (PDict (status @
              [(''functional'', PBool False),
               (''test_result'', PStr ''mem0 not initialized'')]))),
         s))"

definition health_check :: "world \<Rightarrow> bridge \<Rightarrow> pstate \<Rightarrow> (pyexc + pyval) \<times> pstate" where
  "health_check w b s = catch_failure (health_check_try w b s)"

subsection \<open>The command dispatcher\<close>

text \<open>
  \<^verbatim>\<open>print(json.dumps(v))\<close>: \<^verbatim>\<open>json.dumps\<close> runs first, so nothing is printed when it raises.
\<close>

definition print_json :: "pyval \<Rightarrow> pstate \<Rightarrow> (pyexc + unit) \<times> pstate" where
  "print_json v s =
     (case json_dumps v of
        Inl e \<Rightarrow> (Inl e, s)
      | Inr t \<Rightarrow> (Inr (), s\<lparr>out := out s @ [t]\<rparr>))"

definition print_result :: "(pyexc + pyval) \<times> pstate \<Rightarrow> (pyexc + unit) \<times> pstate" where
  "print_result r =
     (case r of
        (Inl e, s) \<Rightarrow> (Inl e, s)
      | (Inr v, s) \<Rightarrow> print_json v s)"

text \<open>
  The body of the \<^verbatim>\<open>try\<close> of \<^verbatim>\<open>main\<close> (lines 253-306). \<open>argv ! 0\<close> is the program name;
  every \<open>argv ! i\<close> is read behind the length test the source makes. The value
  \<^verbatim>\<open>json.loads\<close> yields for the metadata is a new object, stored at a new address.
\<close>

definition dispatch :: "world \<Rightarrow> bridge \<Rightarrow> string list \<Rightarrow> pstate \<Rightarrow> (pyexc + unit) \<times> pstate" where
  "dispatch w b argv s =
     (let command = argv ! 1 in
      if command = ''add'' then
        (if length argv < 5
         then (Inl (ValueError ''Usage: add <user_id> <message> <metadata_json>''), s)
         else
           (let user_id = argv ! 2; message = argv ! 3 in
            case (if length argv > 4 then json_loads w (argv ! 4) else Inr (PDict [])) of
              Inl e \<Rightarrow> (Inl e, s)
            | Inr metadata \<Rightarrow>
                (let (a, s1) = alloc metadata s;
                     messages = PList [PDict [(''role'', PStr ''user''), (''content'', PStr message)]]
                 in print_result (add_memory w b messages user_id (Some a) s1))))
      else if command = ''search'' then
        (if length argv < 4
         then (Inl (ValueError ''Usage: search <user_id> <query> [limit]''), s)
         else
           (let user_id = argv ! 2; query = argv ! 3 in
            case (if length argv > 4 then py_int w (argv ! 4) else Inr 10) of
              Inl e \<Rightarrow> (Inl e, s)
            | Inr limit \<Rightarrow> print_result (search_memory b query user_id limit s)))
      else if command = ''get_all'' then
        (if length argv < 3
         then (Inl (ValueError ''Usage: get_all <user_id>''), s)
         else print_result (get_all_memories b (argv ! 2) s))
      else if command = ''update'' then
        (if length argv < 4
         then (Inl (ValueError ''Usage: update <memory_id> <data_json>''), s)
         else
           (case json_loads w (argv ! 3) of
              Inl e \<Rightarrow> (Inl e, s)
            | Inr data \<Rightarrow> print_result (update_memory b (argv ! 2) data s)))
      else if command = ''delete'' then
        (if length argv < 3
         then (Inl (ValueError ''Usage: delete <memory_id>''), s)
         else print_result (delete_memory b (argv ! 2) s))
      else if command = ''health'' then
        print_result (health_check w b s)
      else (Inl (ValueError (''Unknown command: '' @ command)), s))"

text \<open>
  What one run of the process shows: the lines on standard output, the exit status, the
  exception that ended the run uncaught (its traceback goes to standard error), and the
  calls the client received.
\<close>

record outcome =
  stdout :: "pyval list"
  exit_code :: nat
  traceback :: "pyexc option"
  client_calls :: "call list"

definition top_level_error :: "string \<Rightarrow> pyval" where
  "top_level_error m = PDict [(''error'', PStr m)]"

text \<open>Lines 250-310: the dispatch inside its \<^verbatim>\<open>try\<close>, and the handler that exits with 1.\<close>

definition run_command :: "world \<Rightarrow> bridge \<Rightarrow> string list \<Rightarrow> outcome" where
  "run_command w b argv =
     (case dispatch w b argv initial_state of
        (Inr u, s) \<Rightarrow>
          \<lparr>stdout = out s, exit_code = 0, traceback = None, client_calls = calls s\<rparr>
      | (Inl e, s) \<Rightarrow>
          \<lparr>stdout = out s @ [top_level_error (str_exc e)], exit_code = 1, traceback = None,
           client_calls = calls s\<rparr>)"

text \<open>
  Lines 231-240: the two \<^verbatim>\<open>int(...)\<close> conversions are evaluated in the order of the
  dictionary display, outside every \<^verbatim>\<open>try\<close>.
\<close>

definition make_config :: "world \<Rightarrow> pyexc + bridge_config" where
  "make_config w =
     (case py_int w (getenv w ''QDRANT_PORT'' ''6333'') of
        Inl e \<Rightarrow> Inl e
      | Inr qport \<Rightarrow>
          (case py_int w (getenv w ''MEMGRAPH_PORT'' ''7687'') of
             Inl e \<Rightarrow> Inl e
           | Inr mport \<Rightarrow>
               Inr \<lparr>qdrant_host = getenv w ''QDRANT_HOST'' ''localhost'',
                    qdrant_port = qport,
                    qdrant_collection = getenv w ''QDRANT_COLLECTION'' ''autoweave'',
                    qdrant_api_key = environ w ''QDRANT_API_KEY'',
                    memgraph_host = getenv w ''MEMGRAPH_HOST'' ''localhost'',
                    memgraph_port = mport,
                    memgraph_user = getenv w ''MEMGRAPH_USER'' ''memgraph'',
                    memgraph_password = getenv w ''MEMGRAPH_PASSWORD'' ''memgraph''\<rparr>))"

text \<open>\<^verbatim>\<open>main\<close> (lines 224-310); \<open>argv\<close> is \<^verbatim>\<open>sys.argv\<close>.\<close>

definition main :: "world \<Rightarrow> string list \<Rightarrow> outcome" where
  "main w argv =
     (if length argv < 2
      then \<lparr>stdout = [top_level_error ''Missing command''], exit_code = 1, traceback = None,
            client_calls = []\<rparr>
      else
        (case make_config w of
           Inl e \<Rightarrow> \<lparr>stdout = [], exit_code = 1, traceback = Some e, client_calls = []\<rparr>
         | Inr cfg \<Rightarrow>
             (case Mem0Bridge w cfg of
                Inl e \<Rightarrow>
                  \<lparr>stdout = [top_level_error (''Failed to initialize bridge: '' @ str_exc e)],
                   exit_code = 1, traceback = None, client_calls = []\<rparr>
              | Inr b \<Rightarrow> run_command w b argv)))"

subsection \<open>Properties of envelopes\<close>

text \<open>\<^verbatim>\<open>k in d\<close> and \<^verbatim>\<open>d.get(k)\<close> for a value that should be a dictionary.\<close>

fun has_key :: "pyval \<Rightarrow> string \<Rightarrow> bool" where
  "has_key (PDict kvs) k = (map_of kvs k \<noteq> None)"
| "has_key v k = False"

fun lookup :: "pyval \<Rightarrow> string \<Rightarrow> pyval option" where
  "lookup (PDict kvs) k = map_of kvs k"
| "lookup v k = None"

text \<open>
  The invariant the specification gives for a result envelope: a boolean \<open>success\<close>, and
  exactly one of \<open>result\<close>, \<open>results\<close>, \<open>error\<close>; \<open>result\<close> or \<open>results\<close> when \<open>success\<close>
  is true, \<open>error\<close> when it is false.
\<close>

definition envelope_invariant :: "pyval \<Rightarrow> bool" where
  "envelope_invariant v =
     (case lookup v ''success'' of
        Some (PBool ok) \<Rightarrow>
          (if ok
           then (has_key v ''result'' \<noteq> has_key v ''results'') \<and> \<not> has_key v ''error''
           else has_key v ''error'' \<and> \<not> has_key v ''result'' \<and> \<not> has_key v ''results'')
      | _ \<Rightarrow> False)"

text \<open>What \<^verbatim>\<open>health_check\<close> returns instead: \<open>status\<close> takes the place of \<open>result\<close>.\<close>

definition health_envelope_invariant :: "pyval \<Rightarrow> bool" where
  "health_envelope_invariant v =
     (case lookup v ''success'' of
        Some (PBool ok) \<Rightarrow>
          \<not> has_key v ''result'' \<and> \<not> has_key v ''results'' \<and>
          (if ok then has_key v ''status'' \<and> \<not> has_key v ''error''
           else has_key v ''error'' \<and> \<not> has_key v ''status'')
      | _ \<Rightarrow> False)"

text \<open>The three entries \<^verbatim>\<open>add_memory\<close> injects, as a test on a dictionary.\<close>

definition has_injected :: "world \<Rightarrow> string \<Rightarrow> pyval \<Rightarrow> bool" where
  "has_injected w user_id v =
     (lookup v ''timestamp'' = Some (PStr (now_isoformat w)) \<and>
      lookup v ''source'' = Some (PStr ''autoweave'') \<and>
      lookup v ''user_id'' = Some (PStr user_id))"

text \<open>
  The probe of \<^verbatim>\<open>health_check\<close>, as the specification speaks of it: the search of line 211
  together with the \<^verbatim>\<open>len\<close> of its result on line 213. It raises or gives the count.
\<close>

definition probe_search :: "bridge \<Rightarrow> pstate \<Rightarrow> pyexc + nat" where
  "probe_search b s =
     (case fst (memory_call b (Search ''test'' ''health_check'' 1) s) of
        Inl e \<Rightarrow> Inl e
      | Inr test_result \<Rightarrow> py_len test_result)"

text \<open>\<^verbatim>\<open>status.functional\<close> of an envelope, when it has a status with that field.\<close>

definition status_functional :: "pyval \<Rightarrow> pyval option" where
  "status_functional env =
     (case lookup env ''status'' of
        Some st \<Rightarrow> lookup st ''functional''
      | None \<Rightarrow> None)"

text \<open>
  The dictionary the caller of \<^verbatim>\<open>add_memory\<close> supplied: the empty one for \<^verbatim>\<open>None\<close>, none when
  the argument is not a dictionary.
\<close>

definition caller_metadata :: "nat option \<Rightarrow> pstate \<Rightarrow> (string \<times> pyval) list option" where
  "caller_metadata metadata s =
     (case metadata of
        None \<Rightarrow> Some []
      | Some r \<Rightarrow>
          (case heap s r of
             Some (PDict d) \<Rightarrow> Some d
           | Some PNone \<Rightarrow> Some []
           | _ \<Rightarrow> None))"

definition injected_keys :: "string set" where
  "injected_keys = {''timestamp'', ''source'', ''user_id''}"

text \<open>
  The dispatcher-level errors, read off the guards of \<^verbatim>\<open>main\<close>: a command with fewer
  arguments than its guard asks for (lines 254, 266, 277, 285, 294), a JSON payload that
  \<^verbatim>\<open>json.loads\<close> rejects (lines 259, 289), a limit that \<^verbatim>\<open>int\<close> rejects (line 271), a command
  that is none of the six (line 306).
\<close>

definition missing_arguments :: "string list \<Rightarrow> bool" where
  "missing_arguments argv =
     ((argv ! 1 = ''add'' \<and> length argv < 5) \<or>
      (argv ! 1 = ''search'' \<and> length argv < 4) \<or>
      (argv ! 1 = ''get_all'' \<and> length argv < 3) \<or>
      (argv ! 1 = ''update'' \<and> length argv < 4) \<or>
      (argv ! 1 = ''delete'' \<and> length argv < 3))"

definition malformed_json :: "world \<Rightarrow> string list \<Rightarrow> bool" where
  "malformed_json w argv =
     ((argv ! 1 = ''add'' \<and> 5 \<le> length argv \<and> isl (json_loads w (argv ! 4))) \<or>
      (argv ! 1 = ''update'' \<and> 4 \<le> length argv \<and> isl (json_loads w (argv ! 3))))"


definition data_command :: "string \<Rightarrow> bool" where
  "data_command c =
     (c = ''add'' \<or> c = ''search'' \<or> c = ''get_all'' \<or> c = ''update'' \<or> c = ''delete'')"

definition unknown_command :: "string list \<Rightarrow> bool" where
  "unknown_command argv = (\<not> data_command (argv ! 1) \<and> argv ! 1 \<noteq> ''health'')"


subsection \<open>Example worlds\<close>

text \<open>
  Concrete worlds on which the theorems below are exercised. \<open>decimal\<close> is \<^verbatim>\<open>int\<close> on the
  strings the examples use: a string of ASCII digits is its value, a string with any other
  character (such as \<^verbatim>\<open>abc\<close>) raises \<^verbatim>\<open>ValueError\<close>.
\<close>

definition is_digit :: "char \<Rightarrow> bool" where
  "is_digit c = (48 \<le> (of_char c :: nat) \<and> (of_char c :: nat) \<le> 57)"

definition decimal :: "string \<Rightarrow> pyexc + int" where
  "decimal s =
     (if s \<noteq> [] \<and> list_all is_digit s
      then Inr (fold (\<lambda>c n. 10 * n + (of_char c - 48)) s 0)
      else Inl (ValueError (''invalid literal for int() with base 10: '' @ [CHR 0x27] @ s @ [CHR 0x27])))"

definition loads_example :: "string \<Rightarrow> pyexc + pyval" where
  "loads_example s =
     (if s = ''{}'' then Inr (PDict [])
      else if s = ''[1]'' then Inr (PList [PInt 1])
      else if s = ''null'' then Inr PNone
      else Inl (OtherError ''JSONDecodeError'' ''Expecting value: line 1 column 1 (char 0)''))"

definition three_records :: pyval where
  "three_records = PList [PDict [(''id'', PStr ''r1'')], PDict [(''id'', PStr ''r2'')], PDict [(''id'', PStr ''r3'')]]"

definition working_client :: client where
  "working_client c =
     (case c of
        Add m u md \<Rightarrow> Inr (PDict [(''id'', PStr ''m1'')])
      | Search q u l \<Rightarrow> Inr three_records
      | GetAll u \<Rightarrow> Inr three_records
      | Update i d \<Rightarrow> Inr (PDict [(''message'', PStr ''updated'')])
      | Delete i \<Rightarrow> Inr PNone)"

definition failing_client :: client where
  "failing_client c = Inl (OtherError ''ConnectionError'' ''connection refused'')"

definition good_world :: world where
  "good_world =
     \<lparr>environ = [''OPENAI_API_KEY'' \<mapsto> ''sk-test'', ''SKIP_CONNECTIVITY_CHECK'' \<mapsto> ''true''],
      now_isoformat = ''2024-01-01T00:00:00'',
      py_int = decimal,
      json_loads = loads_example,
      requests_get = (\<lambda>u. Inr 200),
      from_config = (\<lambda>c. Inr working_client)\<rparr>"

definition failing_world :: world where
  "failing_world = good_world\<lparr>from_config := (\<lambda>c. Inr failing_client)\<rparr>"

definition no_key_world :: world where
  "no_key_world = good_world\<lparr>environ := Map.empty\<rparr>"

definition bad_port_world :: world where
  "bad_port_world = good_world\<lparr>environ := (environ good_world)(''QDRANT_PORT'' \<mapsto> ''abc'')\<rparr>"

definition example_config :: bridge_config where
  "example_config =
     \<lparr>qdrant_host = ''localhost'', qdrant_port = 6333, qdrant_collection = ''autoweave'',
      qdrant_api_key = None, memgraph_host = ''localhost'', memgraph_port = 7687,
      memgraph_user = ''memgraph'', memgraph_password = ''memgraph''\<rparr>"

definition ready_bridge :: "client \<Rightarrow> bridge" where
  "ready_bridge c = \<lparr>config = example_config, memory = Some c, initialized = True, mem0_config = PDict []\<rparr>"

definition failed_bridge :: bridge where
  "failed_bridge = \<lparr>config = example_config, memory = None, initialized = False, mem0_config = PDict []\<rparr>"

definition tagged_state :: pstate where
  "tagged_state = \<lparr>heap = [0 \<mapsto> PDict [(''tag'', PStr ''x''), (''source'', PStr ''caller'')]],
     next_addr = 1, calls = [], out = []\<rparr>"

section \<open>Verification\<close>

lemmas example_defs =
  ready_bridge_def failed_bridge_def working_client_def failing_client_def good_world_def
  failing_world_def no_key_world_def bad_port_world_def example_config_def three_records_def
  tagged_state_def initial_state_def

lemmas operation_defs =
  add_memory_def search_memory_def get_all_memories_def update_memory_def delete_memory_def
  health_check_def add_memory_try_def search_memory_try_def get_all_memories_try_def
  update_memory_try_def delete_memory_try_def health_check_try_def catch_failure_def
  memory_call_def alloc_def metadata_update_def status_base_def Let_def

lemma str_nat_3: "str_nat (Suc (Suc (Suc 0))) = ''3''"
  by code_simp

subsection \<open>The shape of what an operation returns\<close>

lemma envelope_invariant_failure: "envelope_invariant (failure e)"
  by (simp add: envelope_invariant_def failure_def)

lemma envelope_invariant_result: "envelope_invariant (success ''result'' r)"
  by (simp add: envelope_invariant_def success_def)

lemma envelope_invariant_results: "envelope_invariant (success ''results'' r)"
  by (simp add: envelope_invariant_def success_def)

lemma health_invariant_failure: "health_envelope_invariant (failure e)"
  by (simp add: health_envelope_invariant_def failure_def)

lemma health_invariant_status: "health_envelope_invariant (success ''status'' r)"
  by (simp add: health_envelope_invariant_def success_def)

lemma add_memory_shape:
  "fst (add_memory w b messages user_id metadata s) = Inr env \<Longrightarrow>
     (\<exists>e. env = failure e) \<or> (\<exists>r. env = success ''result'' r)"
  by (auto simp: add_memory_def add_memory_try_def catch_failure_def Let_def split: if_splits prod.splits sum.splits option.splits pyval.splits)

lemma search_memory_shape:
  "fst (search_memory b query user_id limit s) = Inr env \<Longrightarrow>
     (\<exists>e. env = failure e) \<or> (\<exists>r. env = success ''results'' r)"
  by (auto simp: search_memory_def search_memory_try_def catch_failure_def split: if_splits prod.splits sum.splits)

lemma get_all_memories_shape:
  "fst (get_all_memories b user_id s) = Inr env \<Longrightarrow>
     (\<exists>e. env = failure e) \<or> (\<exists>r. env = success ''results'' r)"
  by (auto simp: get_all_memories_def get_all_memories_try_def catch_failure_def split: if_splits prod.splits sum.splits)

lemma update_memory_shape:
  "fst (update_memory b memory_id data s) = Inr env \<Longrightarrow>
     (\<exists>e. env = failure e) \<or> (\<exists>r. env = success ''result'' r)"
  by (auto simp: update_memory_def update_memory_try_def catch_failure_def split: if_splits prod.splits sum.splits)

lemma delete_memory_shape:
  "fst (delete_memory b memory_id s) = Inr env \<Longrightarrow>
     (\<exists>e. env = failure e) \<or> (\<exists>r. env = success ''result'' r)"
  by (auto simp: delete_memory_def delete_memory_try_def catch_failure_def split: if_splits prod.splits sum.splits)

lemma health_check_shape:
  "\<exists>env. fst (health_check w b s) = Inr env \<and>
     ((\<exists>e. env = failure e) \<or> (\<exists>r. env = success ''status'' r))"
  by (auto simp: health_check_def health_check_try_def catch_failure_def Let_def split: if_splits prod.splits sum.splits)

subsection \<open>The initialization gate\<close>

text \<open>
  Claim C3. On a bridge whose \<open>initialized\<close> flag is false, each of \<open>add_memory\<close>,
  \<open>search_memory\<close>, \<open>get_all_memories\<close>, \<open>update_memory\<close> and \<open>delete_memory\<close> raises the
  not-initialized condition (\<^verbatim>\<open>RuntimeError("mem0 not initialized")\<close>): the outcome is the
  exception, not an envelope, and the state is left as it was.
\<close>

theorem not_initialized_raises:
  assumes "\<not> initialized b"
  shows "add_memory w b messages user_id metadata s = (Inl not_initialized, s) \<and>
         search_memory b query user_id limit s = (Inl not_initialized, s) \<and>
         get_all_memories b user_id s = (Inl not_initialized, s) \<and>
         update_memory b memory_id data s = (Inl not_initialized, s) \<and>
         delete_memory b memory_id s = (Inl not_initialized, s)"
  using assms
  by (simp add: add_memory_def search_memory_def get_all_memories_def update_memory_def
      delete_memory_def)

theorem not_initialized_raises_witness:
  "\<not> initialized failed_bridge \<and>
   add_memory good_world failed_bridge PNone ''u'' None initial_state =
     (Inl (RuntimeError ''mem0 not initialized''), initial_state) \<and>
   search_memory failed_bridge ''q'' ''u'' 10 initial_state =
     (Inl (RuntimeError ''mem0 not initialized''), initial_state) \<and>
   get_all_memories failed_bridge ''u'' initial_state =
     (Inl (RuntimeError ''mem0 not initialized''), initial_state) \<and>
   update_memory failed_bridge ''m'' PNone initial_state =
     (Inl (RuntimeError ''mem0 not initialized''), initial_state) \<and>
   delete_memory failed_bridge ''m'' initial_state =
     (Inl (RuntimeError ''mem0 not initialized''), initial_state)"
  using not_initialized_raises [where b = failed_bridge and w = good_world and messages = PNone
      and user_id = "''u''" and metadata = None and s = initial_state and query = "''q''"
      and limit = 10 and memory_id = "''m''" and data = PNone]
  by (simp add: failed_bridge_def not_initialized_def)

subsection \<open>The envelope invariant\<close>

text \<open>
  Claim C2, as stated, fails for \<open>health_check\<close>: on a bridge that is not initialized it
  returns \<^verbatim>\<open>{"success": true, "status": {...}}\<close>, which has none of the keys \<open>result\<close>,
  \<open>results\<close>, \<open>error\<close>.
\<close>

theorem envelope_invariant_health_counterexample:
  "\<not> isl (fst (health_check good_world failed_bridge initial_state)) \<and>
   \<not> envelope_invariant (projr (fst (health_check good_world failed_bridge initial_state)))"
  by (simp add: health_check_def health_check_try_def catch_failure_def failed_bridge_def
      success_def envelope_invariant_def status_base_def)

text \<open>
  Claim C2, amended. Every envelope returned by \<open>add_memory\<close>, \<open>search_memory\<close>,
  \<open>get_all_memories\<close>, \<open>update_memory\<close> or \<open>delete_memory\<close> has a boolean \<open>success\<close> and
  exactly one of the keys \<open>result\<close>, \<open>results\<close>, \<open>error\<close>: \<open>result\<close> or \<open>results\<close> exactly
  when \<open>success\<close> is true, \<open>error\<close> exactly when it is false. An envelope returned by
  \<open>health_check\<close> has a boolean \<open>success\<close>, never \<open>result\<close> or \<open>results\<close>, the key \<open>status\<close>
  exactly when \<open>success\<close> is true and the key \<open>error\<close> exactly when it is false.
\<close>

theorem envelope_invariant_operations:
  "(fst (add_memory w b messages user_id metadata s) = Inr env_add \<longrightarrow> envelope_invariant env_add) \<and>
   (fst (search_memory b query user_id limit s) = Inr env_search \<longrightarrow> envelope_invariant env_search) \<and>
   (fst (get_all_memories b user_id s) = Inr env_get_all \<longrightarrow> envelope_invariant env_get_all) \<and>
   (fst (update_memory b memory_id data s) = Inr env_update \<longrightarrow> envelope_invariant env_update) \<and>
   (fst (delete_memory b memory_id s) = Inr env_delete \<longrightarrow> envelope_invariant env_delete) \<and>
   (fst (health_check w b s) = Inr env_health \<longrightarrow> health_envelope_invariant env_health)"
  using add_memory_shape [of w b messages user_id metadata s env_add]
    search_memory_shape [of b query user_id limit s env_search]
    get_all_memories_shape [of b user_id s env_get_all]
    update_memory_shape [of b memory_id data s env_update]
    delete_memory_shape [of b memory_id s env_delete]
    health_check_shape [of w b s]
  by (auto simp: envelope_invariant_failure envelope_invariant_result envelope_invariant_results
      health_invariant_failure health_invariant_status)

theorem envelope_invariant_operations_witness:
  "fst (add_memory good_world (ready_bridge working_client) PNone ''u'' None initial_state) =
     Inr (success ''result'' (PDict [(''id'', PStr ''m1'')])) \<and>
   envelope_invariant (success ''result'' (PDict [(''id'', PStr ''m1'')])) \<and>
   fst (search_memory (ready_bridge working_client) ''q'' ''u'' 10 initial_state) =
     Inr (success ''results'' three_records) \<and>
   envelope_invariant (success ''results'' three_records) \<and>
   fst (get_all_memories (ready_bridge working_client) ''u'' initial_state) =
     Inr (success ''results'' three_records) \<and>
   fst (update_memory (ready_bridge working_client) ''m'' PNone initial_state) =
     Inr (success ''result'' (PDict [(''message'', PStr ''updated'')])) \<and>
   envelope_invariant (success ''result'' (PDict [(''message'', PStr ''updated'')])) \<and>
   fst (delete_memory (ready_bridge working_client) ''m'' initial_state) =
     Inr (success ''result'' PNone) \<and>
   envelope_invariant (success ''result'' PNone) \<and>
   fst (health_check good_world (ready_bridge working_client) initial_state) =
     Inr (success ''status'' (PDict (status_base good_world (ready_bridge working_client) @
       [(''functional'', PBool True), (''test_result'', PStr ''Search test successful: 3 results'')]))) \<and>
   health_envelope_invariant (success ''status'' (PDict (status_base good_world (ready_bridge working_client) @
       [(''functional'', PBool True), (''test_result'', PStr ''Search test successful: 3 results'')])))"
proof -
  have a: "fst (add_memory good_world (ready_bridge working_client) PNone ''u'' None initial_state) =
     Inr (success ''result'' (PDict [(''id'', PStr ''m1'')]))"
    by (simp add: operation_defs example_defs)
  have b: "fst (search_memory (ready_bridge working_client) ''q'' ''u'' 10 initial_state) =
     Inr (success ''results'' three_records)"
    by (simp add: operation_defs example_defs)
  have c: "fst (get_all_memories (ready_bridge working_client) ''u'' initial_state) =
     Inr (success ''results'' three_records)"
    by (simp add: operation_defs example_defs)
  have d: "fst (update_memory (ready_bridge working_client) ''m'' PNone initial_state) =
     Inr (success ''result'' (PDict [(''message'', PStr ''updated'')]))"
    by (simp add: operation_defs example_defs)
  have e: "fst (delete_memory (ready_bridge working_client) ''m'' initial_state) =
     Inr (success ''result'' PNone)"
    by (simp add: operation_defs example_defs)
  have f: "fst (health_check good_world (ready_bridge working_client) initial_state) =
     Inr (success ''status'' (PDict (status_base good_world (ready_bridge working_client) @
       [(''functional'', PBool True), (''test_result'', PStr ''Search test successful: 3 results'')])))"
    by (simp add: operation_defs example_defs str_nat_3)
  from a b c d e f
    envelope_invariant_operations [where w = good_world and b = "ready_bridge working_client"
      and messages = PNone and user_id = "''u''" and metadata = None and s = initial_state
      and query = "''q''" and limit = 10 and memory_id = "''m''" and data = PNone
      and env_add = "success ''result'' (PDict [(''id'', PStr ''m1'')])"
      and env_search = "success ''results'' three_records"
      and env_get_all = "success ''results'' three_records"
      and env_update = "success ''result'' (PDict [(''message'', PStr ''updated'')])"
      and env_delete = "success ''result'' PNone"
      and env_health = "success ''status'' (PDict (status_base good_world (ready_bridge working_client) @
       [(''functional'', PBool True), (''test_result'', PStr ''Search test successful: 3 results'')]))"]
  show ?thesis by simp
qed

subsection \<open>The health check\<close>

text \<open>
  Claim C1, as stated, fails: on an initialized bridge whose probe search raises,
  \<open>health_check\<close> returns \<^verbatim>\<open>{"success": false, "error": ...}\<close>, with no status object.
\<close>

theorem health_check_probe_counterexample:
  "initialized (ready_bridge failing_client) \<and>
   fst (health_check good_world (ready_bridge failing_client) initial_state) =
     Inr (PDict [(''success'', PBool False), (''error'', PStr ''connection refused'')])"
  by (simp add: operation_defs example_defs failure_def)

text \<open>
  Claim C1, amended. \<open>health_check\<close> never raises and returns an envelope in every
  initialization state. Its \<open>success\<close> field is false exactly when the bridge is initialized
  and the probe (the trivial search, and the \<^verbatim>\<open>len\<close> of its result) raises; the envelope is
  then \<^verbatim>\<open>{"success": false, "error": <message>}\<close>. In every other case the envelope holds a
  status object, and \<open>status.functional\<close> is true exactly when the bridge is initialized.
\<close>

theorem health_check_envelope:
  "\<exists>env. fst (health_check w b s) = Inr env \<and>
     lookup env ''success'' = Some (PBool (\<not> (initialized b \<and> isl (probe_search b s)))) \<and>
     (if initialized b \<and> isl (probe_search b s)
      then env = failure (projl (probe_search b s))
      else status_functional env = Some (PBool (initialized b)))"
  by (auto simp: health_check_def health_check_try_def catch_failure_def probe_search_def
      status_functional_def status_base_def success_def failure_def Let_def
      split: prod.splits sum.splits)

theorem health_check_envelope_witness:
  "fst (health_check good_world (ready_bridge working_client) initial_state) =
     Inr (success ''status'' (PDict (status_base good_world (ready_bridge working_client) @
       [(''functional'', PBool True), (''test_result'', PStr ''Search test successful: 3 results'')]))) \<and>
   probe_search (ready_bridge working_client) initial_state = Inr 3 \<and>
   status_functional (success ''status'' (PDict (status_base good_world (ready_bridge working_client) @
       [(''functional'', PBool True), (''test_result'', PStr ''Search test successful: 3 results'')]))) = Some (PBool True) \<and>
   fst (health_check good_world failed_bridge initial_state) =
     Inr (success ''status'' (PDict (status_base good_world failed_bridge @
       [(''functional'', PBool False), (''test_result'', PStr ''mem0 not initialized'')]))) \<and>
   status_functional (success ''status'' (PDict (status_base good_world failed_bridge @
       [(''functional'', PBool False), (''test_result'', PStr ''mem0 not initialized'')]))) = Some (PBool False)"
proof -
  have a: "fst (health_check good_world (ready_bridge working_client) initial_state) =
     Inr (success ''status'' (PDict (status_base good_world (ready_bridge working_client) @
       [(''functional'', PBool True), (''test_result'', PStr ''Search test successful: 3 results'')])))"
    by (simp add: operation_defs example_defs str_nat_3)
  have b: "probe_search (ready_bridge working_client) initial_state = Inr 3"
    by (simp add: probe_search_def operation_defs example_defs)
  have c: "fst (health_check good_world failed_bridge initial_state) =
     Inr (success ''status'' (PDict (status_base good_world failed_bridge @
       [(''functional'', PBool False), (''test_result'', PStr ''mem0 not initialized'')])))"
    by (simp add: operation_defs example_defs)
  have d: "initialized (ready_bridge working_client)" "\<not> initialized failed_bridge"
    by (simp_all add: example_defs)
  from a b c d
    health_check_envelope [of good_world "ready_bridge working_client" initial_state]
    health_check_envelope [of good_world failed_bridge initial_state]
  show ?thesis by auto
qed

subsection \<open>The metadata of \<open>add_memory\<close>\<close>

lemma map_of_metadata_update:
  "map_of (metadata_update w user_id d) k =
     (if k = ''user_id'' then Some (PStr user_id)
      else if k = ''source'' then Some (PStr ''autoweave'')
      else if k = ''timestamp'' then Some (PStr (now_isoformat w))
      else map_of d k)"
  by (simp add: metadata_update_def update_conv')

lemma has_injected_metadata_update: "has_injected w user_id (PDict (metadata_update w user_id d))"
  by (simp add: has_injected_def map_of_metadata_update)

lemma metadata_update_others:
  "k \<notin> injected_keys \<Longrightarrow> map_of (metadata_update w user_id d) k = map_of d k"
  by (simp add: injected_keys_def map_of_metadata_update)

text \<open>The calls \<open>add_memory_try\<close> makes, by the shape of the metadata argument.\<close>

lemma add_memory_try_calls_dict:
  assumes "caller_metadata metadata s = Some d0" and "memory b = Some c"
  shows "calls (snd (add_memory_try w b messages user_id metadata s)) =
           calls s @ [Add messages user_id (PDict (metadata_update w user_id d0))]"
  using assms
  by (auto simp: add_memory_try_def caller_metadata_def memory_call_def alloc_def Let_def
      split: option.splits pyval.splits prod.splits sum.splits if_splits)

lemma add_memory_try_calls_no_client:
  assumes "memory b = None"
  shows "calls (snd (add_memory_try w b messages user_id metadata s)) = calls s"
  using assms
  by (auto simp: add_memory_try_def memory_call_def alloc_def Let_def
      split: option.splits pyval.splits prod.splits sum.splits if_splits)

lemma add_memory_try_calls_not_dict:
  assumes "caller_metadata metadata s = None"
  shows "calls (snd (add_memory_try w b messages user_id metadata s)) = calls s"
  using assms
  by (auto simp: add_memory_try_def caller_metadata_def memory_call_def alloc_def Let_def
      split: option.splits pyval.splits prod.splits sum.splits if_splits)

lemma snd_catch_failure: "snd (catch_failure r) = snd r"
  by (simp add: catch_failure_def split: prod.splits sum.splits)

text \<open>
  Claim C4. On an initialized bridge, \<open>add_memory\<close> makes at most one call on the client,
  and it is \<^verbatim>\<open>add\<close> with a metadata dictionary that has \<open>timestamp\<close> (the current time),
  \<open>source\<close> (the fixed tag \<^verbatim>\<open>autoweave\<close>) and \<open>user_id\<close> (the argument), whatever the caller
  supplied under these keys; every other key has the value the caller gave it. With a
  client and a metadata argument that is \<^verbatim>\<open>None\<close> or a dictionary, exactly one call is made.
\<close>

theorem add_memory_metadata:
  assumes "initialized b"
  shows "\<exists>new. calls (snd (add_memory w b messages user_id metadata s)) = calls s @ new \<and>
           (\<forall>c \<in> set new. \<exists>d d0. c = Add messages user_id (PDict d) \<and>
              caller_metadata metadata s = Some d0 \<and>
              has_injected w user_id (PDict d) \<and>
              (\<forall>k. k \<notin> injected_keys \<longrightarrow> map_of d k = map_of d0 k)) \<and>
           (memory b \<noteq> None \<and> caller_metadata metadata s \<noteq> None \<longrightarrow> length new = 1)"
proof (cases "memory b")
  case None
  with assms show ?thesis
    by (simp add: add_memory_def snd_catch_failure add_memory_try_calls_no_client)
next
  case (Some c)
  show ?thesis
  proof (cases "caller_metadata metadata s")
    case None
    with assms show ?thesis
      by (simp add: add_memory_def snd_catch_failure add_memory_try_calls_not_dict)
  next
    case (Some d0)
    from add_memory_try_calls_dict [OF Some \<open>memory b = Some c\<close>] assms
    have "calls (snd (add_memory w b messages user_id metadata s)) =
            calls s @ [Add messages user_id (PDict (metadata_update w user_id d0))]"
      by (simp add: add_memory_def snd_catch_failure)
    with Some show ?thesis
      by (simp add: has_injected_metadata_update metadata_update_others)
  qed
qed

theorem add_memory_metadata_witness:
  "initialized (ready_bridge working_client) \<and>
   calls (snd (add_memory good_world (ready_bridge working_client) PNone ''u'' (Some 0) tagged_state)) =
     [Add PNone ''u'' (PDict [(''tag'', PStr ''x''), (''source'', PStr ''autoweave''),
        (''timestamp'', PStr ''2024-01-01T00:00:00''), (''user_id'', PStr ''u'')])] \<and>
   (\<exists>new. calls (snd (add_memory good_world (ready_bridge working_client) PNone ''u'' (Some 0) tagged_state)) =
      calls tagged_state @ new \<and> length new = 1 \<and>
      (\<forall>c \<in> set new. \<exists>d. c = Add PNone ''u'' (PDict d) \<and> has_injected good_world ''u'' (PDict d) \<and>
         map_of d ''tag'' = Some (PStr ''x'')))"
proof -
  have i: "initialized (ready_bridge working_client)"
    by (simp add: example_defs)
  have m: "memory (ready_bridge working_client) \<noteq> None"
    by (simp add: example_defs)
  have c: "caller_metadata (Some 0) tagged_state = Some [(''tag'', PStr ''x''), (''source'', PStr ''caller'')]"
    by (simp add: caller_metadata_def example_defs)
  have k: "''tag'' \<notin> injected_keys"
    by (simp add: injected_keys_def)
  have e: "calls (snd (add_memory good_world (ready_bridge working_client) PNone ''u'' (Some 0) tagged_state)) =
     [Add PNone ''u'' (PDict [(''tag'', PStr ''x''), (''source'', PStr ''autoweave''),
        (''timestamp'', PStr ''2024-01-01T00:00:00''), (''user_id'', PStr ''u'')])]"
    by (simp add: operation_defs example_defs)
  from add_memory_metadata [OF i, of good_world PNone "''u''" "Some 0" tagged_state] m c
  obtain new where n: "calls (snd (add_memory good_world (ready_bridge working_client) PNone ''u'' (Some 0) tagged_state)) =
      calls tagged_state @ new" "length new = 1"
    "\<forall>c \<in> set new. \<exists>d d0. c = Add PNone ''u'' (PDict d) \<and>
       Some [(''tag'', PStr ''x''), (''source'', PStr ''caller'')] = Some d0 \<and>
       has_injected good_world ''u'' (PDict d) \<and>
       (\<forall>k. k \<notin> injected_keys \<longrightarrow> map_of d k = map_of d0 k)"
    by auto
  from n(3) k have "\<forall>c \<in> set new. \<exists>d. c = Add PNone ''u'' (PDict d) \<and> has_injected good_world ''u'' (PDict d) \<and>
         map_of d ''tag'' = Some (PStr ''x'')"
    by fastforce
  with i e n(1,2) show ?thesis by blast
qed

text \<open>
  Claim C10. When \<open>add_memory\<close> is called with a reference to a dictionary and returns, the
  dictionary at that very address holds the injected \<open>timestamp\<close>, \<open>source\<close> and \<open>user_id\<close>
  (the other keys are as they were), and no new object has been allocated: the merge is
  made in place, not on a copy.
\<close>

theorem add_memory_in_place:
  assumes "heap s a = Some (PDict d0)"
    and "fst (add_memory w b messages user_id (Some a) s) = Inr env"
  shows "heap (snd (add_memory w b messages user_id (Some a) s)) a =
           Some (PDict (metadata_update w user_id d0)) \<and>
         has_injected w user_id (PDict (metadata_update w user_id d0)) \<and>
         (\<forall>k. k \<notin> injected_keys \<longrightarrow> map_of (metadata_update w user_id d0) k = map_of d0 k) \<and>
         next_addr (snd (add_memory w b messages user_id (Some a) s)) = next_addr s"
proof -
  from assms(2) have init: "initialized b"
    by (auto simp: add_memory_def split: if_splits)
  from assms(1) have
    "heap (snd (add_memory_try w b messages user_id (Some a) s)) a =
       Some (PDict (metadata_update w user_id d0)) \<and>
     next_addr (snd (add_memory_try w b messages user_id (Some a) s)) = next_addr s"
    by (auto simp: add_memory_try_def memory_call_def Let_def split: option.splits prod.splits sum.splits)
  with init show ?thesis
    by (simp add: add_memory_def snd_catch_failure has_injected_metadata_update metadata_update_others)
qed

theorem add_memory_in_place_witness:
  "heap tagged_state 0 = Some (PDict [(''tag'', PStr ''x''), (''source'', PStr ''caller'')]) \<and>
   fst (add_memory good_world (ready_bridge working_client) PNone ''u'' (Some 0) tagged_state) =
     Inr (success ''result'' (PDict [(''id'', PStr ''m1'')])) \<and>
   heap (snd (add_memory good_world (ready_bridge working_client) PNone ''u'' (Some 0) tagged_state)) 0 =
     Some (PDict [(''tag'', PStr ''x''), (''source'', PStr ''autoweave''),
        (''timestamp'', PStr ''2024-01-01T00:00:00''), (''user_id'', PStr ''u'')]) \<and>
   next_addr (snd (add_memory good_world (ready_bridge working_client) PNone ''u'' (Some 0) tagged_state)) =
     next_addr tagged_state"
proof -
  have h: "heap tagged_state 0 = Some (PDict [(''tag'', PStr ''x''), (''source'', PStr ''caller'')])"
    by (simp add: example_defs)
  have r: "fst (add_memory good_world (ready_bridge working_client) PNone ''u'' (Some 0) tagged_state) =
     Inr (success ''result'' (PDict [(''id'', PStr ''m1'')]))"
    by (simp add: operation_defs example_defs)
  have u: "metadata_update good_world ''u'' [(''tag'', PStr ''x''), (''source'', PStr ''caller'')] =
     [(''tag'', PStr ''x''), (''source'', PStr ''autoweave''),
        (''timestamp'', PStr ''2024-01-01T00:00:00''), (''user_id'', PStr ''u'')]"
    by (simp add: metadata_update_def example_defs)
  from add_memory_in_place [OF h r] h r u show ?thesis by simp
qed

subsection \<open>The dispatcher\<close>







text \<open>
  Claim C6 does not hold of the code: with \<^verbatim>\<open>QDRANT_PORT=abc\<close> the conversion of line 233
  raises outside every \<^verbatim>\<open>try\<close>; the run prints nothing on standard output and ends with
  status 1 and a traceback.
\<close>

theorem bad_port_prints_nothing:
  "stdout (main bad_port_world [''mem0-bridge.py'', ''health'']) = [] \<and>
   exit_code (main bad_port_world [''mem0-bridge.py'', ''health'']) = 1 \<and>
   traceback (main bad_port_world [''mem0-bridge.py'', ''health'']) =
     Some (ValueError (''invalid literal for int() with base 10: '' @ [CHR 0x27] @ ''abc'' @ [CHR 0x27]))"
proof -
  have c: "make_config bad_port_world =
     Inl (ValueError (''invalid literal for int() with base 10: '' @ [CHR 0x27] @ ''abc'' @ [CHR 0x27]))"
    by code_simp
  show ?thesis
    by (simp add: main_def c)
qed

subsection \<open>The two tiers of error handling\<close>

lemma serializable_failure: "serializable (failure e)"
  by (simp add: failure_def)

lemma print_result_failure:
  "print_result (Inr (failure e), s) = (Inr (), s\<lparr>out := out s @ [failure e]\<rparr>)"
  by (simp add: print_result_def print_json_def json_dumps_def serializable_failure)


lemma out_alloc: "out (snd (alloc v s)) = out s"
  by (simp add: alloc_def)

lemma out_add_memory_try: "out (snd (add_memory_try w b messages user_id metadata s)) = out s"
  by (auto simp: add_memory_try_def memory_call_def alloc_def Let_def
      split: option.splits pyval.splits prod.splits sum.splits if_splits)

lemma out_search_memory_try: "out (snd (search_memory_try b query user_id limit s)) = out s"
  by (auto simp: search_memory_try_def memory_call_def split: option.splits prod.splits sum.splits)

lemma out_get_all_memories_try: "out (snd (get_all_memories_try b user_id s)) = out s"
  by (auto simp: get_all_memories_try_def memory_call_def split: option.splits prod.splits sum.splits)

lemma out_update_memory_try: "out (snd (update_memory_try b memory_id data s)) = out s"
  by (auto simp: update_memory_try_def memory_call_def split: option.splits prod.splits sum.splits)

lemma out_delete_memory_try: "out (snd (delete_memory_try b memory_id s)) = out s"
  by (auto simp: delete_memory_try_def memory_call_def split: option.splits prod.splits sum.splits)

text \<open>What the process shows when the operation the dispatcher called returned a failure envelope.\<close>

lemma run_command_failure:
  assumes "dispatch w b argv initial_state = print_result (catch_failure r)"
    and "fst r = Inl e" and "out (snd r) = []"
  shows "stdout (run_command w b argv) = [failure e] \<and> exit_code (run_command w b argv) = 0"
proof -
  obtain s' where r: "r = (Inl e, s')" using assms(2) by (cases r) auto
  with assms(3) have "out s' = []" by simp
  with assms(1) r show ?thesis
    by (simp add: run_command_def catch_failure_def print_result_failure)
qed

lemma run_command_error:
  assumes "dispatch w b argv initial_state = (Inl e, initial_state)"
  shows "run_command w b argv =
     \<lparr>stdout = [top_level_error (str_exc e)], exit_code = 1, traceback = None, client_calls = []\<rparr>"
  using assms by (simp add: run_command_def initial_state_def)

lemma dispatch_missing_arguments:
  assumes "missing_arguments argv"
  shows "\<exists>m. dispatch w b argv s = (Inl (ValueError m), s)"
  using assms by (auto simp: missing_arguments_def dispatch_def)

lemma dispatch_malformed_json:
  assumes "malformed_json w argv"
  shows "\<exists>e. dispatch w b argv s = (Inl e, s)"
  using assms by (auto simp: malformed_json_def dispatch_def isl_def)

lemma dispatch_unknown_command:
  assumes "unknown_command argv"
  shows "dispatch w b argv s = (Inl (ValueError (''Unknown command: '' @ argv ! 1)), s)"
  using assms by (auto simp: unknown_command_def data_command_def dispatch_def)

lemma dispatcher_level_error:
  assumes "missing_arguments argv \<or> malformed_json w argv \<or> unknown_command argv"
  shows "\<exists>e. run_command w b argv =
     \<lparr>stdout = [top_level_error (str_exc e)], exit_code = 1, traceback = None, client_calls = []\<rparr>"
proof -
  from assms obtain e where "dispatch w b argv initial_state = (Inl e, initial_state)"
    using dispatch_missing_arguments [of argv w b initial_state]
      dispatch_malformed_json [of w argv b initial_state]
      dispatch_unknown_command [of argv w b initial_state]
    by blast
  then show ?thesis
    using run_command_error by blast
qed

lemma main_runs_command:
  assumes "2 \<le> length argv" and "make_config w = Inr cfg"
  shows "main w argv = run_command w (initialize_memory w (new_bridge w cfg)) argv"
  using assms by (simp add: main_def Mem0Bridge_def)

text \<open>The dispatcher's call of each operation, on a well-formed command line.\<close>

lemma dispatch_add:
  assumes "json_loads w j = Inr md"
  shows "dispatch w b (prog # ''add'' # user_id # message # j # rest) s =
     print_result (add_memory w b (PList [PDict [(''role'', PStr ''user''), (''content'', PStr message)]])
       user_id (Some (fst (alloc md s))) (snd (alloc md s)))"
  using assms by (simp add: dispatch_def Let_def split: prod.splits)

lemma dispatch_search:
  assumes "(case rest of [] \<Rightarrow> Inr 10 | l # ls \<Rightarrow> py_int w l) = Inr n"
  shows "dispatch w b (prog # ''search'' # user_id # query # rest) s =
     print_result (search_memory b query user_id n s)"
  using assms by (cases rest) (simp_all add: dispatch_def)

lemma dispatch_get_all:
  "dispatch w b (prog # ''get_all'' # user_id # rest) s = print_result (get_all_memories b user_id s)"
  by (simp add: dispatch_def)

lemma dispatch_update:
  assumes "json_loads w j = Inr data"
  shows "dispatch w b (prog # ''update'' # memory_id # j # rest) s =
     print_result (update_memory b memory_id data s)"
  using assms by (simp add: dispatch_def)

lemma dispatch_delete:
  "dispatch w b (prog # ''delete'' # memory_id # rest) s = print_result (delete_memory b memory_id s)"
  by (simp add: dispatch_def)

lemma dispatch_health:
  "dispatch w b (prog # ''health'' # rest) s = print_result (health_check w b s)"
  by (simp add: dispatch_def)

text \<open>
  Claim C7. Operation level: on an initialized bridge, an exception raised in the body of
  the \<^verbatim>\<open>try\<close> of a data operation (that is, past the initialization gate) is caught there
  and the operation returns \<^verbatim>\<open>{"success": false, "error": <message>}\<close>; the command that
  called the operation prints that envelope and the process exits with status 0.
  Dispatcher level: a command with missing arguments, a malformed JSON payload or an
  unknown command prints one top-level object \<^verbatim>\<open>{"error": <message>}\<close>, and nothing else,
  makes no call on the client, and the process exits with status 1; for an unknown
  command the message is \<^verbatim>\<open>Unknown command: \<close> followed by the command. When the
  configuration has been read, \<open>main\<close> is \<open>run_command\<close> on the bridge it built.
\<close>

theorem two_tier_error_handling:
  "(initialized b \<longrightarrow>
      (fst (add_memory_try w b messages user_id metadata s) = Inl e \<longrightarrow>
         fst (add_memory w b messages user_id metadata s) = Inr (PDict [(''success'', PBool False), (''error'', PStr (str_exc e))])) \<and>
      (fst (search_memory_try b query user_id limit s) = Inl e \<longrightarrow>
         fst (search_memory b query user_id limit s) = Inr (PDict [(''success'', PBool False), (''error'', PStr (str_exc e))])) \<and>
      (fst (get_all_memories_try b user_id s) = Inl e \<longrightarrow>
         fst (get_all_memories b user_id s) = Inr (PDict [(''success'', PBool False), (''error'', PStr (str_exc e))])) \<and>
      (fst (update_memory_try b memory_id data s) = Inl e \<longrightarrow>
         fst (update_memory b memory_id data s) = Inr (PDict [(''success'', PBool False), (''error'', PStr (str_exc e))])) \<and>
      (fst (delete_memory_try b memory_id s) = Inl e \<longrightarrow>
         fst (delete_memory b memory_id s) = Inr (PDict [(''success'', PBool False), (''error'', PStr (str_exc e))]))) \<and>
   (initialized b \<longrightarrow>
      (json_loads w j = Inr md \<and>
       fst (add_memory_try w b (PList [PDict [(''role'', PStr ''user''), (''content'', PStr message)]])
              user_id (Some (fst (alloc md initial_state))) (snd (alloc md initial_state))) = Inl e \<longrightarrow>
         stdout (run_command w b (prog # ''add'' # user_id # message # j # rest)) = [PDict [(''success'', PBool False), (''error'', PStr (str_exc e))]] \<and>
         exit_code (run_command w b (prog # ''add'' # user_id # message # j # rest)) = 0) \<and>
      ((case rest of [] \<Rightarrow> Inr 10 | l # ls \<Rightarrow> py_int w l) = Inr n \<and>
       fst (search_memory_try b query user_id n initial_state) = Inl e \<longrightarrow>
         stdout (run_command w b (prog # ''search'' # user_id # query # rest)) = [PDict [(''success'', PBool False), (''error'', PStr (str_exc e))]] \<and>
         exit_code (run_command w b (prog # ''search'' # user_id # query # rest)) = 0) \<and>
      (fst (get_all_memories_try b user_id initial_state) = Inl e \<longrightarrow>
         stdout (run_command w b (prog # ''get_all'' # user_id # rest)) = [PDict [(''success'', PBool False), (''error'', PStr (str_exc e))]] \<and>
         exit_code (run_command w b (prog # ''get_all'' # user_id # rest)) = 0) \<and>
      (json_loads w j = Inr data \<and> fst (update_memory_try b memory_id data initial_state) = Inl e \<longrightarrow>
         stdout (run_command w b (prog # ''update'' # memory_id # j # rest)) = [PDict [(''success'', PBool False), (''error'', PStr (str_exc e))]] \<and>
         exit_code (run_command w b (prog # ''update'' # memory_id # j # rest)) = 0) \<and>
      (fst (delete_memory_try b memory_id initial_state) = Inl e \<longrightarrow>
         stdout (run_command w b (prog # ''delete'' # memory_id # rest)) = [PDict [(''success'', PBool False), (''error'', PStr (str_exc e))]] \<and>
         exit_code (run_command w b (prog # ''delete'' # memory_id # rest)) = 0)) \<and>
   (missing_arguments argv \<or> malformed_json w argv \<or> unknown_command argv \<longrightarrow>
      (\<exists>m. run_command w b argv =
         \<lparr>stdout = [PDict [(''error'', PStr m)]], exit_code = 1, traceback = None,
          client_calls = []\<rparr>)) \<and>
   (unknown_command argv \<longrightarrow>
      stdout (run_command w b argv) = [PDict [(''error'', PStr (''Unknown command: '' @ argv ! 1))]]) \<and>
   (2 \<le> length argv \<and> make_config w = Inr cfg \<longrightarrow>
      (\<exists>b'. Mem0Bridge w cfg = Inr b' \<and> main w argv = run_command w b' argv))"
proof -
  have ops: "initialized b \<longrightarrow>
      (fst (add_memory_try w b messages user_id metadata s) = Inl e \<longrightarrow>
         fst (add_memory w b messages user_id metadata s) = Inr (PDict [(''success'', PBool False), (''error'', PStr (str_exc e))])) \<and>
      (fst (search_memory_try b query user_id limit s) = Inl e \<longrightarrow>
         fst (search_memory b query user_id limit s) = Inr (PDict [(''success'', PBool False), (''error'', PStr (str_exc e))])) \<and>
      (fst (get_all_memories_try b user_id s) = Inl e \<longrightarrow>
         fst (get_all_memories b user_id s) = Inr (PDict [(''success'', PBool False), (''error'', PStr (str_exc e))])) \<and>
      (fst (update_memory_try b memory_id data s) = Inl e \<longrightarrow>
         fst (update_memory b memory_id data s) = Inr (PDict [(''success'', PBool False), (''error'', PStr (str_exc e))])) \<and>
      (fst (delete_memory_try b memory_id s) = Inl e \<longrightarrow>
         fst (delete_memory b memory_id s) = Inr (PDict [(''success'', PBool False), (''error'', PStr (str_exc e))]))"
    by (auto simp: add_memory_def search_memory_def get_all_memories_def update_memory_def
        delete_memory_def catch_failure_def failure_def split: prod.splits)
  have add: "stdout (run_command w b (prog # ''add'' # user_id # message # j # rest)) = [PDict [(''success'', PBool False), (''error'', PStr (str_exc e))]] \<and>
         exit_code (run_command w b (prog # ''add'' # user_id # message # j # rest)) = 0"
    if "initialized b" "json_loads w j = Inr md"
      "fst (add_memory_try w b (PList [PDict [(''role'', PStr ''user''), (''content'', PStr message)]])
              user_id (Some (fst (alloc md initial_state))) (snd (alloc md initial_state))) = Inl e"
  proof (rule run_command_failure [unfolded failure_def, OF _ that(3)])
    show "dispatch w b (prog # ''add'' # user_id # message # j # rest) initial_state =
      print_result (catch_failure (add_memory_try w b
        (PList [PDict [(''role'', PStr ''user''), (''content'', PStr message)]]) user_id
        (Some (fst (alloc md initial_state))) (snd (alloc md initial_state))))"
      using that(1) by (simp add: dispatch_add [OF that(2)] add_memory_def)
    show "out (snd (add_memory_try w b
        (PList [PDict [(''role'', PStr ''user''), (''content'', PStr message)]]) user_id
        (Some (fst (alloc md initial_state))) (snd (alloc md initial_state)))) = []"
      by (simp add: out_add_memory_try out_alloc) (simp add: initial_state_def)
  qed
  have search: "stdout (run_command w b (prog # ''search'' # user_id # query # rest)) = [PDict [(''success'', PBool False), (''error'', PStr (str_exc e))]] \<and>
         exit_code (run_command w b (prog # ''search'' # user_id # query # rest)) = 0"
    if "initialized b" "(case rest of [] \<Rightarrow> Inr 10 | l # ls \<Rightarrow> py_int w l) = Inr n"
      "fst (search_memory_try b query user_id n initial_state) = Inl e"
  proof (rule run_command_failure [unfolded failure_def, OF _ that(3)])
    show "dispatch w b (prog # ''search'' # user_id # query # rest) initial_state =
      print_result (catch_failure (search_memory_try b query user_id n initial_state))"
      using that(1) by (simp add: dispatch_search [OF that(2)] search_memory_def)
    show "out (snd (search_memory_try b query user_id n initial_state)) = []"
      by (simp add: out_search_memory_try) (simp add: initial_state_def)
  qed
  have get_all: "stdout (run_command w b (prog # ''get_all'' # user_id # rest)) = [PDict [(''success'', PBool False), (''error'', PStr (str_exc e))]] \<and>
         exit_code (run_command w b (prog # ''get_all'' # user_id # rest)) = 0"
    if "initialized b" "fst (get_all_memories_try b user_id initial_state) = Inl e"
  proof (rule run_command_failure [unfolded failure_def, OF _ that(2)])
    show "dispatch w b (prog # ''get_all'' # user_id # rest) initial_state =
      print_result (catch_failure (get_all_memories_try b user_id initial_state))"
      using that(1) by (simp add: dispatch_get_all get_all_memories_def)
    show "out (snd (get_all_memories_try b user_id initial_state)) = []"
      by (simp add: out_get_all_memories_try) (simp add: initial_state_def)
  qed
  have update: "stdout (run_command w b (prog # ''update'' # memory_id # j # rest)) = [PDict [(''success'', PBool False), (''error'', PStr (str_exc e))]] \<and>
         exit_code (run_command w b (prog # ''update'' # memory_id # j # rest)) = 0"
    if "initialized b" "json_loads w j = Inr data"
      "fst (update_memory_try b memory_id data initial_state) = Inl e"
  proof (rule run_command_failure [unfolded failure_def, OF _ that(3)])
    show "dispatch w b (prog # ''update'' # memory_id # j # rest) initial_state =
      print_result (catch_failure (update_memory_try b memory_id data initial_state))"
      using that(1) by (simp add: dispatch_update [OF that(2)] update_memory_def)
    show "out (snd (update_memory_try b memory_id data initial_state)) = []"
      by (simp add: out_update_memory_try) (simp add: initial_state_def)
  qed
  have delete: "stdout (run_command w b (prog # ''delete'' # memory_id # rest)) = [PDict [(''success'', PBool False), (''error'', PStr (str_exc e))]] \<and>
         exit_code (run_command w b (prog # ''delete'' # memory_id # rest)) = 0"
    if "initialized b" "fst (delete_memory_try b memory_id initial_state) = Inl e"
  proof (rule run_command_failure [unfolded failure_def, OF _ that(2)])
    show "dispatch w b (prog # ''delete'' # memory_id # rest) initial_state =
      print_result (catch_failure (delete_memory_try b memory_id initial_state))"
      using that(1) by (simp add: dispatch_delete delete_memory_def)
    show "out (snd (delete_memory_try b memory_id initial_state)) = []"
      by (simp add: out_delete_memory_try) (simp add: initial_state_def)
  qed
  have disp: "\<exists>m. run_command w b argv =
         \<lparr>stdout = [PDict [(''error'', PStr m)]], exit_code = 1, traceback = None,
          client_calls = []\<rparr>"
    if "missing_arguments argv \<or> malformed_json w argv \<or> unknown_command argv"
    using dispatcher_level_error [OF that, of b] by (auto simp: top_level_error_def)
  have unknown: "unknown_command argv \<longrightarrow>
      stdout (run_command w b argv) = [PDict [(''error'', PStr (''Unknown command: '' @ argv ! 1))]]"
    using run_command_error [OF dispatch_unknown_command, of argv w b]
    by (simp add: top_level_error_def)
  have link: "\<exists>b'. Mem0Bridge w cfg = Inr b' \<and> main w argv = run_command w b' argv"
    if "2 \<le> length argv" "make_config w = Inr cfg"
    using main_runs_command [OF that] by (simp add: Mem0Bridge_def)
  have process: "initialized b \<longrightarrow>
      (json_loads w j = Inr md \<and>
       fst (add_memory_try w b (PList [PDict [(''role'', PStr ''user''), (''content'', PStr message)]])
              user_id (Some (fst (alloc md initial_state))) (snd (alloc md initial_state))) = Inl e \<longrightarrow>
         stdout (run_command w b (prog # ''add'' # user_id # message # j # rest)) = [PDict [(''success'', PBool False), (''error'', PStr (str_exc e))]] \<and>
         exit_code (run_command w b (prog # ''add'' # user_id # message # j # rest)) = 0) \<and>
      ((case rest of [] \<Rightarrow> Inr 10 | l # ls \<Rightarrow> py_int w l) = Inr n \<and>
       fst (search_memory_try b query user_id n initial_state) = Inl e \<longrightarrow>
         stdout (run_command w b (prog # ''search'' # user_id # query # rest)) = [PDict [(''success'', PBool False), (''error'', PStr (str_exc e))]] \<and>
         exit_code (run_command w b (prog # ''search'' # user_id # query # rest)) = 0) \<and>
      (fst (get_all_memories_try b user_id initial_state) = Inl e \<longrightarrow>
         stdout (run_command w b (prog # ''get_all'' # user_id # rest)) = [PDict [(''success'', PBool False), (''error'', PStr (str_exc e))]] \<and>
         exit_code (run_command w b (prog # ''get_all'' # user_id # rest)) = 0) \<and>
      (json_loads w j = Inr data \<and> fst (update_memory_try b memory_id data initial_state) = Inl e \<longrightarrow>
         stdout (run_command w b (prog # ''update'' # memory_id # j # rest)) = [PDict [(''success'', PBool False), (''error'', PStr (str_exc e))]] \<and>
         exit_code (run_command w b (prog # ''update'' # memory_id # j # rest)) = 0) \<and>
      (fst (delete_memory_try b memory_id initial_state) = Inl e \<longrightarrow>
         stdout (run_command w b (prog # ''delete'' # memory_id # rest)) = [PDict [(''success'', PBool False), (''error'', PStr (str_exc e))]] \<and>
         exit_code (run_command w b (prog # ''delete'' # memory_id # rest)) = 0)"
  proof (intro impI conjI)
    assume i: "initialized b"
    {
      assume "json_loads w j = Inr md \<and>
       fst (add_memory_try w b (PList [PDict [(''role'', PStr ''user''), (''content'', PStr message)]])
              user_id (Some (fst (alloc md initial_state))) (snd (alloc md initial_state))) = Inl e"
      then have a: "stdout (run_command w b (prog # ''add'' # user_id # message # j # rest)) = [PDict [(''success'', PBool False), (''error'', PStr (str_exc e))]] \<and>
         exit_code (run_command w b (prog # ''add'' # user_id # message # j # rest)) = 0"
        using add [OF i] by blast
      from a show "stdout (run_command w b (prog # ''add'' # user_id # message # j # rest)) = [PDict [(''success'', PBool False), (''error'', PStr (str_exc e))]]" ..
      from a show "exit_code (run_command w b (prog # ''add'' # user_id # message # j # rest)) = 0" ..
    }
    {
      assume "(case rest of [] \<Rightarrow> Inr 10 | l # ls \<Rightarrow> py_int w l) = Inr n \<and>
       fst (search_memory_try b query user_id n initial_state) = Inl e"
      then have a: "stdout (run_command w b (prog # ''search'' # user_id # query # rest)) = [PDict [(''success'', PBool False), (''error'', PStr (str_exc e))]] \<and>
         exit_code (run_command w b (prog # ''search'' # user_id # query # rest)) = 0"
        using search [OF i] by blast
      from a show "stdout (run_command w b (prog # ''search'' # user_id # query # rest)) = [PDict [(''success'', PBool False), (''error'', PStr (str_exc e))]]" ..
      from a show "exit_code (run_command w b (prog # ''search'' # user_id # query # rest)) = 0" ..
    }
    {
      assume "fst (get_all_memories_try b user_id initial_state) = Inl e"
      then have a: "stdout (run_command w b (prog # ''get_all'' # user_id # rest)) = [PDict [(''success'', PBool False), (''error'', PStr (str_exc e))]] \<and>
         exit_code (run_command w b (prog # ''get_all'' # user_id # rest)) = 0"
        by (rule get_all [OF i])
      from a show "stdout (run_command w b (prog # ''get_all'' # user_id # rest)) = [PDict [(''success'', PBool False), (''error'', PStr (str_exc e))]]" ..
      from a show "exit_code (run_command w b (prog # ''get_all'' # user_id # rest)) = 0" ..
    }
    {
      assume "json_loads w j = Inr data \<and> fst (update_memory_try b memory_id data initial_state) = Inl e"
      then have a: "stdout (run_command w b (prog # ''update'' # memory_id # j # rest)) = [PDict [(''success'', PBool False), (''error'', PStr (str_exc e))]] \<and>
         exit_code (run_command w b (prog # ''update'' # memory_id # j # rest)) = 0"
        using update [OF i] by blast
      from a show "stdout (run_command w b (prog # ''update'' # memory_id # j # rest)) = [PDict [(''success'', PBool False), (''error'', PStr (str_exc e))]]" ..
      from a show "exit_code (run_command w b (prog # ''update'' # memory_id # j # rest)) = 0" ..
    }
    {
      assume "fst (delete_memory_try b memory_id initial_state) = Inl e"
      then have a: "stdout (run_command w b (prog # ''delete'' # memory_id # rest)) = [PDict [(''success'', PBool False), (''error'', PStr (str_exc e))]] \<and>
         exit_code (run_command w b (prog # ''delete'' # memory_id # rest)) = 0"
        by (rule delete [OF i])
      from a show "stdout (run_command w b (prog # ''delete'' # memory_id # rest)) = [PDict [(''success'', PBool False), (''error'', PStr (str_exc e))]]" ..
      from a show "exit_code (run_command w b (prog # ''delete'' # memory_id # rest)) = 0" ..
    }
  qed
  have disp': "missing_arguments argv \<or> malformed_json w argv \<or> unknown_command argv \<longrightarrow>
      (\<exists>m. run_command w b argv =
         \<lparr>stdout = [PDict [(''error'', PStr m)]], exit_code = 1, traceback = None,
          client_calls = []\<rparr>)"
    using disp by (rule impI)
  have link': "2 \<le> length argv \<and> make_config w = Inr cfg \<longrightarrow>
      (\<exists>b'. Mem0Bridge w cfg = Inr b' \<and> main w argv = run_command w b' argv)"
    using link by blast
  show ?thesis
    by (rule conjI [OF ops conjI [OF process conjI [OF disp' conjI [OF unknown link']]]])
qed

theorem two_tier_error_handling_witness:
  "initialized (ready_bridge failing_client) \<and>
   fst (add_memory failing_world (ready_bridge failing_client) PNone ''u'' None initial_state) =
     Inr (PDict [(''success'', PBool False), (''error'', PStr ''connection refused'')]) \<and>
   fst (search_memory (ready_bridge failing_client) ''q'' ''u'' 10 initial_state) =
     Inr (PDict [(''success'', PBool False), (''error'', PStr ''connection refused'')]) \<and>
   fst (get_all_memories (ready_bridge failing_client) ''u'' initial_state) =
     Inr (PDict [(''success'', PBool False), (''error'', PStr ''connection refused'')]) \<and>
   fst (update_memory (ready_bridge failing_client) ''m'' (PDict []) initial_state) =
     Inr (PDict [(''success'', PBool False), (''error'', PStr ''connection refused'')]) \<and>
   fst (delete_memory (ready_bridge failing_client) ''m'' initial_state) =
     Inr (PDict [(''success'', PBool False), (''error'', PStr ''connection refused'')]) \<and>
   (stdout (run_command failing_world (ready_bridge failing_client) [''prog'', ''add'', ''u'', ''hi'', ''{}'']) =
      [PDict [(''success'', PBool False), (''error'', PStr ''connection refused'')]] \<and>
    exit_code (run_command failing_world (ready_bridge failing_client) [''prog'', ''add'', ''u'', ''hi'', ''{}'']) = 0) \<and>
   (stdout (run_command failing_world (ready_bridge failing_client) [''prog'', ''search'', ''u'', ''q'']) =
      [PDict [(''success'', PBool False), (''error'', PStr ''connection refused'')]] \<and>
    exit_code (run_command failing_world (ready_bridge failing_client) [''prog'', ''search'', ''u'', ''q'']) = 0) \<and>
   (stdout (run_command failing_world (ready_bridge failing_client) [''prog'', ''get_all'', ''u'']) =
      [PDict [(''success'', PBool False), (''error'', PStr ''connection refused'')]] \<and>
    exit_code (run_command failing_world (ready_bridge failing_client) [''prog'', ''get_all'', ''u'']) = 0) \<and>
   (stdout (run_command failing_world (ready_bridge failing_client) [''prog'', ''update'', ''m'', ''{}'']) =
      [PDict [(''success'', PBool False), (''error'', PStr ''connection refused'')]] \<and>
    exit_code (run_command failing_world (ready_bridge failing_client) [''prog'', ''update'', ''m'', ''{}'']) = 0) \<and>
   (stdout (run_command failing_world (ready_bridge failing_client) [''prog'', ''delete'', ''m'']) =
      [PDict [(''success'', PBool False), (''error'', PStr ''connection refused'')]] \<and>
    exit_code (run_command failing_world (ready_bridge failing_client) [''prog'', ''delete'', ''m'']) = 0) \<and>
   unknown_command [''prog'', ''frobnicate''] \<and>
   (\<exists>m. run_command failing_world (ready_bridge failing_client) [''prog'', ''frobnicate''] =
       \<lparr>stdout = [PDict [(''error'', PStr m)]], exit_code = 1, traceback = None, client_calls = []\<rparr>) \<and>
   stdout (run_command failing_world (ready_bridge failing_client) [''prog'', ''frobnicate'']) =
     [PDict [(''error'', PStr ''Unknown command: frobnicate'')]] \<and>
   missing_arguments [''prog'', ''delete''] \<and>
   (\<exists>m. run_command failing_world (ready_bridge failing_client) [''prog'', ''delete''] =
       \<lparr>stdout = [PDict [(''error'', PStr m)]], exit_code = 1, traceback = None, client_calls = []\<rparr>) \<and>
   malformed_json failing_world [''prog'', ''update'', ''m'', ''{oops''] \<and>
   (\<exists>m. run_command failing_world (ready_bridge failing_client) [''prog'', ''update'', ''m'', ''{oops''] =
       \<lparr>stdout = [PDict [(''error'', PStr m)]], exit_code = 1, traceback = None, client_calls = []\<rparr>) \<and>
   make_config failing_world = Inr example_config \<and>
   (\<exists>b'. Mem0Bridge failing_world example_config = Inr b' \<and>
      main failing_world [''prog'', ''frobnicate''] = run_command failing_world b' [''prog'', ''frobnicate''])"
proof -
  let ?b = "ready_bridge failing_client"
  let ?E = "OtherError ''ConnectionError'' ''connection refused''"
  let ?hi = "PList [PDict [(''role'', PStr ''user''), (''content'', PStr ''hi'')]]"
  note t = two_tier_error_handling [where w = failing_world and b = ?b and e = ?E
      and messages = PNone and user_id = "''u''" and metadata = None and s = initial_state
      and query = "''q''" and limit = 10 and n = 10 and rest = "[]" and memory_id = "''m''"
      and data = "PDict []" and md = "PDict []" and j = "''{}''" and message = "''hi''"
      and prog = "''prog''" and cfg = example_config, unfolded str_exc.simps]
  have i: "initialized ?b"
    by (simp add: ready_bridge_def)
  have a1: "fst (add_memory_try failing_world ?b PNone ''u'' None initial_state) = Inl ?E"
    by (simp add: operation_defs example_defs)
  have a2: "fst (search_memory_try ?b ''q'' ''u'' 10 initial_state) = Inl ?E"
    by (simp add: operation_defs example_defs)
  have a3: "fst (get_all_memories_try ?b ''u'' initial_state) = Inl ?E"
    by (simp add: operation_defs example_defs)
  have a4: "fst (update_memory_try ?b ''m'' (PDict []) initial_state) = Inl ?E"
    by (simp add: operation_defs example_defs)
  have a5: "fst (delete_memory_try ?b ''m'' initial_state) = Inl ?E"
    by (simp add: operation_defs example_defs)
  have j: "json_loads failing_world ''{}'' = Inr (PDict [])"
    by (simp add: failing_world_def good_world_def loads_example_def)
  have p1: "fst (add_memory_try failing_world ?b ?hi ''u'' (Some (fst (alloc (PDict []) initial_state)))
      (snd (alloc (PDict []) initial_state))) = Inl ?E"
    by (simp add: operation_defs example_defs)
  have p2: "(case [] of [] \<Rightarrow> Inr 10 | l # ls \<Rightarrow> py_int failing_world l) = Inr (10::int)"
    by simp
  have d1: "unknown_command [''prog'', ''frobnicate'']"
    by (simp add: unknown_command_def data_command_def)
  have d2: "missing_arguments [''prog'', ''delete'']"
    by (simp add: missing_arguments_def)
  have d3: "malformed_json failing_world [''prog'', ''update'', ''m'', ''{oops'']"
    by (simp add: malformed_json_def failing_world_def good_world_def loads_example_def)
  have l: "2 \<le> length [''prog'', ''frobnicate'']"
    by simp
  have c: "make_config failing_world = Inr example_config"
    by code_simp
  note o = t [where argv = "[''prog'', ''frobnicate'']", THEN conjunct1, THEN mp, OF i]
  note o1 = o [THEN conjunct1, THEN mp, OF a1]
  note o2 = o [THEN conjunct2, THEN conjunct1, THEN mp, OF a2]
  note o3 = o [THEN conjunct2, THEN conjunct2, THEN conjunct1, THEN mp, OF a3]
  note o4 = o [THEN conjunct2, THEN conjunct2, THEN conjunct2, THEN conjunct1, THEN mp, OF a4]
  note o5 = o [THEN conjunct2, THEN conjunct2, THEN conjunct2, THEN conjunct2, THEN mp, OF a5]
  note p = t [where argv = "[''prog'', ''frobnicate'']", THEN conjunct2, THEN conjunct1, THEN mp, OF i]
  note q1 = p [THEN conjunct1, THEN mp, OF conjI [OF j p1]]
  note q2 = p [THEN conjunct2, THEN conjunct1, THEN mp, OF conjI [OF p2 a2]]
  note q3 = p [THEN conjunct2, THEN conjunct2, THEN conjunct1, THEN mp, OF a3]
  note q4 = p [THEN conjunct2, THEN conjunct2, THEN conjunct2, THEN conjunct1, THEN mp, OF conjI [OF j a4]]
  note q5 = p [THEN conjunct2, THEN conjunct2, THEN conjunct2, THEN conjunct2, THEN mp, OF a5]
  note e1 = t [where argv = "[''prog'', ''frobnicate'']", THEN conjunct2, THEN conjunct2, THEN conjunct1,
      THEN mp, OF disjI2 [OF disjI2 [OF d1]]]
  note e2 = t [where argv = "[''prog'', ''delete'']", THEN conjunct2, THEN conjunct2, THEN conjunct1,
      THEN mp, OF disjI1 [OF d2]]
  note e3 = t [where argv = "[''prog'', ''update'', ''m'', ''{oops'']", THEN conjunct2, THEN conjunct2,
      THEN conjunct1, THEN mp, OF disjI2 [OF disjI1 [OF d3]]]
  note v = t [where argv = "[''prog'', ''frobnicate'']", THEN conjunct2, THEN conjunct2, THEN conjunct2,
      THEN conjunct1, THEN mp, OF d1]
  have v': "stdout (run_command failing_world (ready_bridge failing_client) [''prog'', ''frobnicate'']) =
     [PDict [(''error'', PStr ''Unknown command: frobnicate'')]]"
    using v by simp
  note k = t [where argv = "[''prog'', ''frobnicate'']", THEN conjunct2, THEN conjunct2, THEN conjunct2,
      THEN conjunct2, THEN mp, OF conjI [OF l c]]
  from i o1 o2 o3 o4 o5
    q1 [THEN conjunct1] q1 [THEN conjunct2] q2 [THEN conjunct1] q2 [THEN conjunct2]
    q3 [THEN conjunct1] q3 [THEN conjunct2] q4 [THEN conjunct1] q4 [THEN conjunct2]
    q5 [THEN conjunct1] q5 [THEN conjunct2]
    d1 e1 v' d2 e2 d3 e3 c k
  show ?thesis
    by (intro conjI)
qed

subsection \<open>Failure of the initialization\<close>
















end
